theory Spec2Isabelle
  imports Complex_Main
begin

section \<open>Data model\<close>

text \<open>
  The exceptions of \<^verbatim>\<open>app.core.exceptions\<close> that the services raise and catch. The
  module itself is not part of the sources; the classes are taken to be pairwise
  unrelated subclasses of \<^verbatim>\<open>Exception\<close>, which is what the order of the
  \<^verbatim>\<open>except\<close> clauses in the services relies on. \<open>EmbeddingError\<close> and
  \<open>IndexingError\<close> carry their message and the exception they were raised
  \<^verbatim>\<open>from\<close>; \<open>ServiceError\<close> carries its message and its \<^verbatim>\<open>error_code\<close>.
  \<open>ValueError\<close> is Python's own; every other \<^verbatim>\<open>Exception\<close> (an \<^verbatim>\<open>OSError\<close>, a
  failure inside the vector-store library) is \<open>OtherException\<close>.
  The Korean message texts of the source are rendered in English.
\<close>

datatype exn =
    EmbeddingError string "exn option"
  | IndexingError string "exn option"
  | ServiceError string "string option"
  | ValidationError string
  | RAGError string
  | ValueError string
  | OtherException string

fun is_EmbeddingError :: "exn \<Rightarrow> bool" where
  "is_EmbeddingError (EmbeddingError m c) = True"
| "is_EmbeddingError e = False"

fun is_IndexingError :: "exn \<Rightarrow> bool" where
  "is_IndexingError (IndexingError m c) = True"
| "is_IndexingError e = False"

fun cause :: "exn \<Rightarrow> exn option" where
  "cause (EmbeddingError m c) = c"
| "cause (IndexingError m c) = c"
| "cause e = None"

fun message :: "exn \<Rightarrow> string" where
  "message (EmbeddingError m c) = m"
| "message (IndexingError m c) = m"
| "message (ServiceError m c) = m"
| "message (ValidationError m) = m"
| "message (RAGError m) = m"
| "message (ValueError m) = m"
| "message (OtherException m) = m"

text \<open>
  A langchain \<^verbatim>\<open>Document\<close>: its text and its metadata mapping (kept as the list of
  its items).
\<close>

record document =
  page_content :: string
  metadata :: "(string \<times> string) list"

text \<open>
  Embedding vectors and similarity scores. The source computes them in floating point
  (numpy \<^verbatim>\<open>float32\<close> arrays, a Python \<^verbatim>\<open>float\<close> score); here a finite float is
  the real number it denotes, and the literal \<^verbatim>\<open>0.1\<close> is \<open>1 / 10\<close>. Not-a-number
  scores are outside the model.
\<close>

type_synonym vec = "real list"

text \<open>
  The FAISS index object as far as the service reads it: \<^verbatim>\<open>ntotal\<close>, the
  dimension \<^verbatim>\<open>d\<close>, and \<^verbatim>\<open>reconstruct(idx)\<close>, which returns the stored vector or
  raises (\<open>None\<close>).
\<close>

record faiss_index =
  ntotal :: nat
  dimension :: nat
  reconstruct :: "nat \<Rightarrow> vec option"

text \<open>
  The langchain \<^verbatim>\<open>FAISS\<close> vector store: the index (\<open>None\<close> when it is not
  initialised), the dictionary from index positions to docstore ids, and the docstore
  dictionary.
\<close>

record vector_store =
  index :: "faiss_index option"
  index_to_docstore_id :: "nat \<rightharpoonup> string"
  docstore :: "string \<rightharpoonup> document"

text \<open>
  What \<^verbatim>\<open>embed_documents\<close> can hand back: the pair (vectors, failed indices), some
  other value, or an exception.
\<close>

datatype embed_result =
    Embedded "vec list" "nat list"
  | Unexpected_format
  | Raises exn

text \<open>
  The embeddings object \<^verbatim>\<open>self.embeddings\<close>. \<open>embed_query\<close> is \<open>None\<close> when the
  object has no such attribute.
\<close>

record embeddings =
  embed_documents :: "string list \<Rightarrow> embed_result"
  embed_query :: "(string \<Rightarrow> exn + vec) option"

section \<open>Similarity\<close>

text \<open>
  \<^verbatim>\<open>normalize_vector\<close> and \<^verbatim>\<open>cosine_similarity\<close> read over the reals.
  \<^verbatim>\<open>np.dot\<close> of two one-dimensional arrays of different lengths raises
  \<^verbatim>\<open>ValueError\<close>: \<open>None\<close>.
\<close>

definition normalize_vector :: "vec \<Rightarrow> vec" where
  "normalize_vector v =
     (let norm = sqrt (sum_list (map (\<lambda>x. x * x) v)) + 1 / 10 ^ 8
      in map (\<lambda>x. x / norm) v)"

definition cosine_similarity :: "vec \<Rightarrow> vec \<Rightarrow> real option" where
  "cosine_similarity vec1 vec2 =
     (let v1_normalized = normalize_vector vec1;
          v2_normalized = normalize_vector vec2
      in if length v1_normalized = length v2_normalized
         then Some (sum_list (map2 (*) v1_normalized v2_normalized))
         else None)"

text \<open>
  The search below takes the similarity function as its first argument \<open>sim\<close>, so that
  what is proved of it holds for the rounded \<^verbatim>\<open>float32\<close> computation as well as for
  \<open>cosine_similarity\<close>. \<open>sim q v = None\<close> is an exception raised while scoring.
\<close>

type_synonym similarity = "vec \<Rightarrow> vec \<Rightarrow> real option"

section \<open>Search\<close>

text \<open>Python's \<^verbatim>\<open>xs[:k]\<close>: a negative \<open>k\<close> counts from the end.\<close>

definition py_slice_to :: "'a list \<Rightarrow> int \<Rightarrow> 'a list" where
  "py_slice_to xs k =
     (if 0 \<le> k then take (nat k) xs else take (nat (int (length xs) + k)) xs)"

text \<open>
  The scan \<^verbatim>\<open>for idx in range(num_vectors)\<close> of \<^verbatim>\<open>search_documents\<close>: an index
  position without docstore id, without document, or whose vector cannot be
  reconstructed is skipped; an exception raised while scoring leaves the loop.
\<close>

fun scan :: "similarity \<Rightarrow> vector_store \<Rightarrow> faiss_index \<Rightarrow> vec \<Rightarrow> nat list \<Rightarrow>
    (document \<times> real) list \<Rightarrow> exn + (document \<times> real) list" where
  "scan sim vs ix q [] acc = Inr acc"
| "scan sim vs ix q (idx # rest) acc =
     (case index_to_docstore_id vs idx of
        None \<Rightarrow> scan sim vs ix q rest acc
      | Some docstore_id \<Rightarrow>
          (case docstore vs docstore_id of
             None \<Rightarrow> scan sim vs ix q rest acc
           | Some doc \<Rightarrow>
               (case reconstruct ix idx of
                  None \<Rightarrow> scan sim vs ix q rest acc
                | Some doc_embedding \<Rightarrow>
                    (case sim q doc_embedding of
                       None \<Rightarrow> Inl (ValueError ''shapes not aligned'')
                     | Some s \<Rightarrow> scan sim vs ix q rest (acc @ [(doc, s)])))))"

definition doc_score_pairs :: "similarity \<Rightarrow> vector_store \<Rightarrow> faiss_index \<Rightarrow> vec \<Rightarrow>
    exn + (document \<times> real) list" where
  "doc_score_pairs sim vs ix q = scan sim vs ix q [0 ..< ntotal ix] []"

text \<open>
  \<^verbatim>\<open>doc_score_pairs.sort(key=lambda x: x[1], reverse=True)\<close> is a stable sort by
  descending score; \<^verbatim>\<open>top_results = doc_score_pairs[:top_k]\<close>.
\<close>

definition ranking :: "(document \<times> real) list \<Rightarrow> (document \<times> real) list" where
  "ranking pairs = sort_key (\<lambda>p. - snd p) pairs"

definition top_results :: "int \<Rightarrow> (document \<times> real) list \<Rightarrow> (document \<times> real) list" where
  "top_results top_k pairs = py_slice_to (ranking pairs) top_k"

text \<open>The threshold filter with its relaxation to \<^verbatim>\<open>0.1\<close>.\<close>

definition filtered_results :: "real \<Rightarrow> (document \<times> real) list \<Rightarrow> (document \<times> real) list" where
  "filtered_results similarity_threshold tops =
     (let filtered = filter (\<lambda>p. similarity_threshold \<le> snd p) tops
      in if filtered = [] \<and> 1 / 10 < similarity_threshold \<and> tops \<noteq> []
         then filter (\<lambda>p. 1 / 10 \<le> snd p) tops
         else filtered)"

text \<open>The body of the \<^verbatim>\<open>try\<close> block of \<^verbatim>\<open>search_documents\<close>.\<close>

definition search_try :: "similarity \<Rightarrow> (string \<Rightarrow> exn + vec) \<Rightarrow> vector_store \<Rightarrow> string \<Rightarrow>
    int \<Rightarrow> real \<Rightarrow> exn + (document \<times> real) list" where
  "search_try sim embed_q vs query_text top_k similarity_threshold =
     (case embed_q query_text of
        Inl e \<Rightarrow> Inl e
      | Inr query_embedding \<Rightarrow>
          (case index vs of
             None \<Rightarrow> Inr []
           | Some ix \<Rightarrow>
               if ntotal ix = 0 then Inr []
               else
                 (case doc_score_pairs sim vs ix query_embedding of
                    Inl e \<Rightarrow> Inl e
                  | Inr pairs \<Rightarrow>
                      Inr (filtered_results similarity_threshold
                             (top_results top_k pairs)))))"

text \<open>
  \<^verbatim>\<open>FAISSService.search_documents\<close>. The vector store argument is \<open>None\<close> when the
  caller passes no store. An \<open>EmbeddingError\<close> leaving the \<^verbatim>\<open>try\<close> block is raised
  again; every other exception is answered with the empty list.
\<close>

definition search_documents :: "similarity \<Rightarrow> embeddings \<Rightarrow> vector_store option \<Rightarrow> string \<Rightarrow>
    int \<Rightarrow> real \<Rightarrow> exn + (document \<times> real) list" where
  "search_documents sim emb vector_store query_text top_k similarity_threshold =
     (case vector_store of
        None \<Rightarrow> Inr []
      | Some vs \<Rightarrow>
          (case embed_query emb of
             None \<Rightarrow> Inl (EmbeddingError ''embeddings object does not support query embedding'' None)
           | Some embed_q \<Rightarrow>
               (case search_try sim embed_q vs query_text top_k similarity_threshold of
                  Inl (EmbeddingError m c) \<Rightarrow> Inl (EmbeddingError m c)
                | Inl e \<Rightarrow> Inr []
                | Inr results \<Rightarrow> Inr results)))"

section \<open>Logging and the file system\<close>

text \<open>
  What the services write to their logger: the level and a rendering of the message.
\<close>

datatype level = Debug | Info | Warning | Error

type_synonym log = "(level \<times> string) list"

text \<open>
  The directory tree under which indexes are persisted. A path holds either the files
  of a vector store that \<^verbatim>\<open>FAISS.load_local\<close> reads back, or something that makes
  \<^verbatim>\<open>load_local\<close> raise. \<open>write_error\<close> is the exception that creating the parent
  directory or \<^verbatim>\<open>save_local\<close> raises at a path, if any.
\<close>

datatype stored = Index_files vector_store | Unreadable exn

record filesystem =
  files :: "string \<rightharpoonup> stored"
  write_error :: "string \<Rightarrow> exn option"

section \<open>Index builder\<close>

text \<open>
  The substring test \<^verbatim>\<open>needle in text\<close> of Python, and the marker that
  \<^verbatim>\<open>_generate_embeddings\<close> looks for in an error message (the heading of the
  remedies), with the remedies it appends when the marker is missing. As in the source,
  the appended heading contains the marker.
\<close>

fun starts_with :: "string \<Rightarrow> string \<Rightarrow> bool" where
  "starts_with s [] = True"
| "starts_with [] (p # ps) = False"
| "starts_with (c # s) (p # ps) = (c = p \<and> starts_with s ps)"

fun contains :: "string \<Rightarrow> string \<Rightarrow> bool" where
  "contains [] needle = (needle = [])"
| "contains (c # s) needle = (starts_with (c # s) needle \<or> contains s needle)"

definition remedy_marker :: string where
  "remedy_marker = ''how to resolve:''"

definition default_remedies :: string where
  "default_remedies =
     ''  further '' @ remedy_marker @
     '' 1. restart the Flask server. 2. check the API key in the .env file. 3. check the network connection.''"

definition unexpected_error_details :: "exn \<Rightarrow> string" where
  "unexpected_error_details e =
     ''unexpected error while generating embeddings: '' @ message e @
     '' possible causes: 1. network connection 2. Gemini API outage 3. API key permissions 4. request data format '' @
     remedy_marker @
     '' 1. check the network connection. 2. retry later. 3. check the API key. 4. check the logs.''"

text \<open>
  \<^verbatim>\<open>FAISSService._generate_embeddings\<close>: the pair handed back by the provider, or an
  \<open>EmbeddingError\<close> raised from whatever went wrong.
\<close>

definition generate_embeddings :: "embeddings \<Rightarrow> document list \<Rightarrow>
    log \<times> (exn + vec list \<times> nat list)" where
  "generate_embeddings emb documents =
     (let document_contents = map page_content documents;
          started = (Info, ''embedding generation started'')
      in case embed_documents emb document_contents of
           Embedded embeddings_data failed_indices \<Rightarrow>
             ([started, (Info, ''embedding generation finished'')],
              Inr (embeddings_data, failed_indices))
         | Unexpected_format \<Rightarrow>
             (let e = EmbeddingError ''embedding result has the wrong format'' None;
                  error_message =
                    (if \<not> contains (message e) remedy_marker
                     then message e @ default_remedies else message e)
              in ([started, (Error, ''unexpected embedding result format''),
                   (Error, ''error while generating document embeddings'')],
                  Inl (EmbeddingError error_message (Some e))))
         | Raises (EmbeddingError m c) \<Rightarrow>
             (let e = EmbeddingError m c;
                  error_message =
                    (if \<not> contains (message e) remedy_marker
                     then message e @ default_remedies else message e)
              in ([started, (Error, ''error while generating document embeddings'')],
                  Inl (EmbeddingError error_message (Some e))))
         | Raises e \<Rightarrow>
             ([started, (Error, ''unexpected embedding error'')],
              Inl (EmbeddingError (unexpected_error_details e) (Some e))))"

text \<open>\<^verbatim>\<open>FAISSService._filter_successful_documents\<close>.\<close>

definition filter_successful_documents :: "document list \<Rightarrow> nat list \<Rightarrow> document list" where
  "filter_successful_documents documents failed_indices =
     (let failed_set = set failed_indices
      in map snd (filter (\<lambda>(i, doc). i \<notin> failed_set) (enumerate 0 documents)))"

text \<open>
  Modelled from the spec: \<^verbatim>\<open>FAISS.from_embeddings\<close> of the vector-store library, which
  is not part of the sources. It assembles the index from the (text, vector) pairs and the
  metadata list: one fresh internal id per pair (\<open>uuid4 j\<close> is the \<open>j\<close>-th id drawn), the
  vector at position \<open>j\<close> of the index, and the document rebuilt from text \<open>j\<close> and
  metadata \<open>j\<close> in the docstore under that id. It raises when there is no pair, when
  the metadata list has another length than the texts, or when the vectors do not all
  have the dimension of the first.
\<close>

definition from_embeddings :: "(nat \<Rightarrow> string) \<Rightarrow> (string \<times> vec) list \<Rightarrow>
    (string \<times> string) list list \<Rightarrow> exn + vector_store" where
  "from_embeddings uuid4 text_embeddings metadatas =
     (let texts = map fst text_embeddings;
          vectors = map snd text_embeddings;
          n = length texts
      in if text_embeddings = [] then Inl (ValueError ''not enough values to unpack'')
         else if length metadatas \<noteq> n then Inl (ValueError ''texts and metadatas differ in length'')
         else if \<exists>v \<in> set vectors. length v \<noteq> length (hd vectors)
           then Inl (ValueError ''inhomogeneous shape'')
         else
           (let documents = map (\<lambda>(t, m). \<lparr>page_content = t, metadata = m\<rparr>) (zip texts metadatas);
                ids = map uuid4 [0 ..< n]
            in Inr \<lparr>index = Some \<lparr>ntotal = n, dimension = length (hd vectors),
                                   reconstruct = (\<lambda>j. if j < n then Some (vectors ! j) else None)\<rparr>,
                     index_to_docstore_id = (\<lambda>j. if j < n then Some (ids ! j) else None),
                     docstore = map_of (rev (zip ids documents))\<rparr>))"

text \<open>\<^verbatim>\<open>FAISSService._create_faiss_vector_store\<close>.\<close>

definition create_faiss_vector_store :: "(nat \<Rightarrow> string) \<Rightarrow> document list \<Rightarrow> vec list \<Rightarrow>
    log \<times> (exn + vector_store)" where
  "create_faiss_vector_store uuid4 documents embeddings_data =
     (let text_embedding_pairs =
            map (\<lambda>(doc, embedding). (page_content doc, embedding)) (zip documents embeddings_data);
          metadatas = map metadata documents
      in case from_embeddings uuid4 text_embedding_pairs metadatas of
           Inr vector_store \<Rightarrow> ([], Inr vector_store)
         | Inl e \<Rightarrow>
             ([(Error, ''vector store creation failed'')],
              Inl (IndexingError ''vector store creation failed'' (Some e))))"

text \<open>\<^verbatim>\<open>FAISSService._save_index\<close>.\<close>

definition save_index :: "filesystem \<Rightarrow> vector_store \<Rightarrow> string \<Rightarrow>
    log \<times> filesystem \<times> (exn + unit)" where
  "save_index fs vector_store index_path =
     (case write_error fs index_path of
        None \<Rightarrow>
          ([(Info, ''index saved'')],
           fs\<lparr>files := (files fs)(index_path \<mapsto> Index_files vector_store)\<rparr>,
           Inr ())
      | Some e \<Rightarrow>
          ([(Error, ''index save failed'')], fs,
           Inl (IndexingError ''index save failed'' (Some e))))"

text \<open>
  \<^verbatim>\<open>FAISSService.create_index_from_documents\<close>, the builder. Every exception of the
  \<^verbatim>\<open>try\<close> block is caught and raised again as an \<open>IndexingError\<close>.
\<close>

definition create_index_from_documents :: "embeddings \<Rightarrow> (nat \<Rightarrow> string) \<Rightarrow> filesystem \<Rightarrow>
    document list \<Rightarrow> string \<Rightarrow> string \<Rightarrow> log \<times> filesystem \<times> (exn + vector_store option)" where
  "create_index_from_documents emb uuid4 fs documents index_path index_type =
     (if documents = [] then
        ([(Warning, ''no documents for '' @ index_type @ '' indexing'')], fs, Inr None)
      else
        (let started = [(Info, index_type @ '' index creation started'')];
             failure = (\<lambda>e. IndexingError (index_type @ '' index creation failed'') (Some e));
             failed_log = [(Error, ''error while creating '' @ index_type @ '' index'')]
         in case generate_embeddings emb documents of
              (l1, Inl e) \<Rightarrow> (started @ l1 @ failed_log, fs, Inl (failure e))
            | (l1, Inr (embeddings_data, failed_indices)) \<Rightarrow>
                if embeddings_data = [] then
                  (started @ l1 @ [(Warning, ''embedding generation failed for every document'')],
                   fs, Inr None)
                else
                  (let successful_documents =
                         filter_successful_documents documents failed_indices
                   in case create_faiss_vector_store uuid4 successful_documents embeddings_data of
                        (l2, Inl e) \<Rightarrow> (started @ l1 @ l2 @ failed_log, fs, Inl (failure e))
                      | (l2, Inr vector_store) \<Rightarrow>
                          (case save_index fs vector_store index_path of
                             (l3, fs', Inl e) \<Rightarrow>
                               (started @ l1 @ l2 @ l3 @ failed_log, fs', Inl (failure e))
                           | (l3, fs', Inr u) \<Rightarrow>
                               (started @ l1 @ l2 @ l3 @
                                  [(Info, index_type @ '' index creation finished'')],
                                fs', Inr (Some vector_store))))))"

section \<open>Vector index store\<close>

text \<open>\<^verbatim>\<open>FAISS.load_local\<close> at a path that exists.\<close>

definition load_local :: "filesystem \<Rightarrow> string \<Rightarrow> exn + vector_store" where
  "load_local fs index_path =
     (case files fs index_path of
        Some (Index_files vector_store) \<Rightarrow> Inr vector_store
      | Some (Unreadable e) \<Rightarrow> Inl e
      | None \<Rightarrow> Inl (OtherException ''could not open index file''))"

text \<open>\<^verbatim>\<open>FAISSService.load_index\<close>.\<close>

definition load_index :: "filesystem \<Rightarrow> string \<Rightarrow> string \<Rightarrow> log \<times> (exn + vector_store option)" where
  "load_index fs index_path index_type =
     (if files fs index_path = None then
        ([(Info, index_type @ '' index does not exist'')], Inr None)
      else
        (case load_local fs index_path of
           Inr vector_store \<Rightarrow> ([(Info, index_type @ '' index loaded'')], Inr (Some vector_store))
         | Inl e \<Rightarrow>
             ([(Info, index_type @ '' index loaded''), (Error, index_type @ '' index load failed'')],
              Inr None)))"

section \<open>Indexing jobs\<close>

text \<open>
  The job record kept per repository, and the state the indexing service works on:
  the job store keyed by repository name, the list of repository names for which a
  background pipeline has been started (oldest first), and the clock that stamps
  \<open>start_time\<close> and \<open>end_time\<close>.
\<close>

datatype job_status = Pending | Indexing | Completed | Failed

record indexing_job =
  status :: job_status
  progress :: nat
  progress_message :: string
  start_time :: "nat option"
  end_time :: "nat option"
  error :: "string option"
  error_code :: "string option"
  callback_url :: "string option"
  requesting_user_id :: "nat option"

record service_state =
  jobs :: "string \<rightharpoonup> indexing_job"
  pipelines :: "string list"
  clock :: nat



definition pipeline_finish :: "string \<Rightarrow> (string \<times> string) option \<Rightarrow> service_state \<Rightarrow>
    service_state" where
  "pipeline_finish repo_key failure s =
     (case jobs s repo_key of
        None \<Rightarrow> s
      | Some job \<Rightarrow>
          if status job = Indexing then
            (case failure of
               None \<Rightarrow>
                 s\<lparr>jobs := (jobs s)(repo_key \<mapsto>
                      job\<lparr>status := Completed, progress := 100, end_time := Some (clock s)\<rparr>)\<rparr>
             | Some (err, code) \<Rightarrow>
                 s\<lparr>jobs := (jobs s)(repo_key \<mapsto>
                      job\<lparr>status := Failed, end_time := Some (clock s), error := Some err,
                          error_code := Some code\<rparr>)\<rparr>)
          else s)"

text \<open>The status strings of the job record, as the services compare them.\<close>

fun status_name :: "job_status \<Rightarrow> string" where
  "status_name Pending = ''pending''"
| "status_name Indexing = ''indexing''"
| "status_name Completed = ''completed''"
| "status_name Failed = ''failed''"

text \<open>
  What the methods of \<^verbatim>\<open>RepositoryService\<close> return: the dictionary with
  \<^verbatim>\<open>status\<close>, \<^verbatim>\<open>data\<close>, \<^verbatim>\<open>message\<close>, \<^verbatim>\<open>error_code\<close> and \<^verbatim>\<open>status_code\<close>.
\<close>

record 'd service_result =
  result_status :: string
  result_data :: "'d option"
  result_message :: string
  result_error_code :: "string option"
  status_code :: nat

text \<open>The \<^verbatim>\<open>response_data\<close> of an indexing request.\<close>

record index_response_data =
  analysis_id :: string
  repo_name :: string
  reported_status :: string
  reported_progress :: nat
  reported_message :: string
  started_at :: "nat option"
  estimated_completion :: "nat option"


section \<open>Search and analysis requests\<close>

text \<open>
  Modelled from the spec: \<^verbatim>\<open>SearchService.search_repository\<close>, the search orchestrator;
  the sources hold only its caller. It resolves the repository of the URL to the index
  location, loads the index and hands the query to the search engine with the default
  \<open>top_k\<close> and threshold; when nothing can be loaded it fails with the error code
  \<^verbatim>\<open>INDEX_NOT_FOUND\<close>. It never starts indexing: the state of the indexing service
  is handed back as it was. \<open>repo_name_of\<close> and \<open>get_faiss_index_path\<close> are the helpers
  of \<^verbatim>\<open>app.core.utils\<close>, which are not part of the sources.
\<close>

definition search_service_search_repository :: "similarity \<Rightarrow> embeddings \<Rightarrow> (string \<Rightarrow> string) \<Rightarrow>
    (string \<Rightarrow> string \<Rightarrow> string) \<Rightarrow> int \<Rightarrow> real \<Rightarrow> filesystem \<Rightarrow> service_state \<Rightarrow>
    string \<Rightarrow> string \<Rightarrow> string \<Rightarrow> (exn + (document \<times> real) list) \<times> service_state" where
  "search_service_search_repository sim emb repo_name_of get_faiss_index_path top_k_default
       threshold_default fs s repo_url query search_type =
     (let repo = repo_name_of repo_url;
          index_path = get_faiss_index_path repo search_type
      in case snd (load_index fs index_path search_type) of
           Inl e \<Rightarrow> (Inl e, s)
         | Inr None \<Rightarrow>
             (Inl (ServiceError (''no index for repository '' @ repo) (Some ''INDEX_NOT_FOUND'')), s)
         | Inr (Some vector_store) \<Rightarrow>
             (search_documents sim emb (Some vector_store) query top_k_default threshold_default,
              s))"

text \<open>
  \<^verbatim>\<open>RepositoryService.search_repository\<close>. \<open>validate_search_request\<close> is the
  validator of \<^verbatim>\<open>app.core.validators\<close>; \<open>search_service\<close> is the orchestrator above
  with its collaborators fixed.
\<close>

definition search_repository :: "('req \<Rightarrow> exn + string \<times> string \<times> string) \<Rightarrow>
    (service_state \<Rightarrow> string \<Rightarrow> string \<Rightarrow> string \<Rightarrow>
       (exn + (document \<times> real) list) \<times> service_state) \<Rightarrow>
    'req \<Rightarrow> service_state \<Rightarrow>
    (exn + (document \<times> real) list service_result) \<times> service_state" where
  "search_repository validate_search_request search_service request_data s =
     (case validate_search_request request_data of
        Inl (ValidationError m) \<Rightarrow> (Inl (ValidationError m), s)
      | Inl (ServiceError m c) \<Rightarrow> (Inl (ServiceError m c), s)
      | Inl e \<Rightarrow> (Inl (ServiceError ''Repository search failed due to unexpected error'' None), s)
      | Inr (repo, query, requested_type) \<Rightarrow>
          (let search_type = (if requested_type \<noteq> ''code'' then ''code'' else requested_type)
           in case search_service s (''https://github.com/'' @ repo) query search_type of
                (Inr found, s') \<Rightarrow>
                  (Inr \<lparr>result_status = ''success'', result_data = Some found,
                        result_message = ''search finished'', result_error_code = None,
                        status_code = 200\<rparr>, s')
              | (Inl (ValidationError m), s') \<Rightarrow> (Inl (ValidationError m), s')
              | (Inl (ServiceError m c), s') \<Rightarrow> (Inl (ServiceError m c), s')
              | (Inl e, s') \<Rightarrow>
                  (Inl (ServiceError ''Repository search failed due to unexpected error'' None),
                   s')))"

text \<open>
  The HTTP answers built by \<^verbatim>\<open>success_response\<close> and \<^verbatim>\<open>error_response\<close> of
  \<^verbatim>\<open>app.core.response_utils\<close>: the status code and the fields of the body.
\<close>

record 'd api_response =
  http_status :: nat
  body_status :: string
  body_message :: string
  body_error_code :: "string option"
  body_data :: "'d option"

definition success_response :: "'d option \<Rightarrow> string \<Rightarrow> nat \<Rightarrow> 'd api_response" where
  "success_response payload msg code =
     \<lparr>http_status = code, body_status = ''success'', body_message = msg,
      body_error_code = None, body_data = payload\<rparr>"

definition error_response :: "string \<Rightarrow> string option \<Rightarrow> nat \<Rightarrow> 'd api_response" where
  "error_response msg code http =
     \<lparr>http_status = http, body_status = ''error'', body_message = msg,
      body_error_code = code, body_data = None\<rparr>"

text \<open>\<^verbatim>\<open>RepositorySearch.post\<close>, on the JSON body of the request.\<close>

definition repository_search_post :: "('req \<Rightarrow> exn + string \<times> string \<times> string) \<Rightarrow>
    (service_state \<Rightarrow> string \<Rightarrow> string \<Rightarrow> string \<Rightarrow>
       (exn + (document \<times> real) list) \<times> service_state) \<Rightarrow>
    'req \<Rightarrow> service_state \<Rightarrow> (document \<times> real) list api_response \<times> service_state" where
  "repository_search_post validate_search_request search_service request_json s =
     (case search_repository validate_search_request search_service request_json s of
        (Inr result, s') \<Rightarrow> (success_response (result_data result) (result_message result) 200, s')
      | (Inl (ValidationError m), s') \<Rightarrow> (error_response m (Some ''VALIDATION_ERROR'') 400, s')
      | (Inl (ServiceError m c), s') \<Rightarrow>
          (let code = (case c of
                         None \<Rightarrow> ''SERVICE_ERROR''
                       | Some given \<Rightarrow> if given = [] then ''SERVICE_ERROR'' else given);
               http = (if c = Some ''INDEX_NOT_FOUND'' then 404 else 500)
           in (error_response m (Some code) http, s'))
      | (Inl e, s') \<Rightarrow>
          (error_response ''internal server error'' (Some ''INTERNAL_SERVER_ERROR'') 500, s'))"

text \<open>
  Modelled from the spec: \<^verbatim>\<open>StatusService.get_repository_status_data\<close>, which reads
  the job record of a repository for polling; a repository without a record has the
  status \<^verbatim>\<open>not_indexed\<close> that \<^verbatim>\<open>get_repository_status\<close> looks for.
\<close>

record status_data =
  known_status :: string
  known_progress :: nat
  known_message :: string
  known_error :: "string option"
  known_error_code :: "string option"
  known_start_time :: "nat option"
  known_completion_time :: "nat option"

definition get_repository_status_data :: "service_state \<Rightarrow> string \<Rightarrow> status_data" where
  "get_repository_status_data s repo =
     (case jobs s repo of
        None \<Rightarrow>
          \<lparr>known_status = ''not_indexed'', known_progress = 0, known_message = [],
           known_error = None, known_error_code = None, known_start_time = None,
           known_completion_time = None\<rparr>
      | Some job \<Rightarrow>
          \<lparr>known_status = status_name (status job), known_progress = progress job,
           known_message = progress_message job, known_error = error job,
           known_error_code = error_code job, known_start_time = start_time job,
           known_completion_time = end_time job\<rparr>)"

text \<open>
  \<^verbatim>\<open>RepositoryService.get_repository_status\<close>, on what the status service hands back
  for the repository.
\<close>

definition get_repository_status :: "string \<Rightarrow> exn + status_data \<Rightarrow>
    exn + status_data service_result" where
  "get_repository_status repo status_data_result =
     (case status_data_result of
        Inl (ServiceError m c) \<Rightarrow> Inl (ServiceError m c)
      | Inl e \<Rightarrow> Inl (ServiceError ''Repository status check failed due to unexpected error'' None)
      | Inr found \<Rightarrow>
          (let current_status = known_status found
           in if current_status = ''not_indexed'' then
                Inr \<lparr>result_status = ''error'', result_data = None,
                     result_message = ''no indexing information for repository '' @ repo,
                     result_error_code = Some ''NOT_FOUND'', status_code = 404\<rparr>
              else if current_status = ''failed'' then
                Inr \<lparr>result_status = ''error'', result_data = None,
                     result_message = ''indexing of repository '' @ repo @ '' failed: '' @
                       (case known_error found of None \<Rightarrow> ''unknown error'' | Some err \<Rightarrow> err),
                     result_error_code =
                       Some (case known_error_code found of
                               None \<Rightarrow> ''INDEXING_FAILED'' | Some code \<Rightarrow> code),
                     status_code = 409\<rparr>
              else if current_status = ''pending'' \<or> current_status = ''indexing'' then
                Inr \<lparr>result_status = ''success'', result_data = Some found,
                     result_message = ''indexing of repository '' @ repo @ '' is in progress'',
                     result_error_code = None, status_code = 202\<rparr>
              else if current_status = ''completed'' then
                Inr \<lparr>result_status = ''success'', result_data = Some found,
                     result_message = ''indexing of repository '' @ repo @ '' is finished'',
                     result_error_code = None, status_code = 200\<rparr>
              else
                Inr \<lparr>result_status = ''error'', result_data = None,
                     result_message = ''unknown status '' @ current_status,
                     result_error_code = Some ''UNKNOWN_STATUS'', status_code = 500\<rparr>))"

text \<open>
  The request and the answer of the issue analysis, and
  \<^verbatim>\<open>IssueAnalysisService._load_vector_stores\<close>, \<^verbatim>\<open>_initialize_services\<close> and
  \<^verbatim>\<open>analyze_issue\<close>. \<open>extract_repo_name_from_url\<close> is the helper of
  \<^verbatim>\<open>app.core.utils\<close>, \<open>create_embeddings\<close> the construction of the embeddings object,
  \<open>issue_analyzer\<close> the analysis itself; none is part of the sources.
\<close>

record issue_request =
  issueId :: "nat option"
  repoUrl :: "string option"
  defaultBranch :: "string option"

record analysis =
  summary :: string
  relatedFiles :: "string list"
  codeSnippets :: "string list"
  solutionSuggestion :: string
  analysis_status_code :: nat

definition load_vector_stores :: "(string \<Rightarrow> string \<Rightarrow> string) \<Rightarrow> filesystem \<Rightarrow> string \<Rightarrow>
    vector_store option" where
  "load_vector_stores get_faiss_index_path fs repo =
     (let code_index_path = get_faiss_index_path repo ''code''
      in case snd (load_index fs code_index_path ''code'') of
           Inr (Some code_vector_store) \<Rightarrow> Some code_vector_store
         | Inr None \<Rightarrow> None
         | Inl e \<Rightarrow> None)"

definition initialize_services :: "exn + embeddings \<Rightarrow> exn + embeddings" where
  "initialize_services create_embeddings =
     (case create_embeddings of
        Inr emb \<Rightarrow> Inr emb
      | Inl e \<Rightarrow> Inl (ServiceError ''error while initialising the AI analysis service'' None))"

definition analysis_failure :: "exn \<Rightarrow> analysis" where
  "analysis_failure e =
     (case e of
        RAGError m \<Rightarrow>
          \<lparr>summary = ''search error during AI analysis'', relatedFiles = [], codeSnippets = [],
           solutionSuggestion = ''the analysis could not be finished: search engine error'',
           analysis_status_code = 500\<rparr>
      | ServiceError m c \<Rightarrow>
          \<lparr>summary = ''analysis service error'', relatedFiles = [], codeSnippets = [],
           solutionSuggestion = ''the analysis could not be finished: service error'',
           analysis_status_code = 500\<rparr>
      | _ \<Rightarrow>
          \<lparr>summary = ''unexpected error during issue analysis'', relatedFiles = [],
           codeSnippets = [],
           solutionSuggestion = ''the analysis could not be finished: unexpected error'',
           analysis_status_code = 500\<rparr>)"

definition analyze_issue :: "(string \<Rightarrow> exn + string) \<Rightarrow> exn + embeddings \<Rightarrow>
    (string \<Rightarrow> string \<Rightarrow> string) \<Rightarrow> (vector_store \<Rightarrow> issue_request \<Rightarrow> string \<Rightarrow> exn + analysis) \<Rightarrow>
    filesystem \<Rightarrow> issue_request \<Rightarrow> analysis" where
  "analyze_issue extract_repo_name_from_url create_embeddings get_faiss_index_path
       issue_analyzer fs request_data =
     (let default_branch =
            (case defaultBranch request_data of
               None \<Rightarrow> ''main'' | Some branch \<Rightarrow> if branch = [] then ''main'' else branch);
          missing_url =
            \<lparr>summary = ''a repository URL is required'', relatedFiles = [], codeSnippets = [],
             solutionSuggestion = ''provide the repository URL for the analysis'',
             analysis_status_code = 400\<rparr>
      in case repoUrl request_data of
           None \<Rightarrow> missing_url
         | Some repo_url \<Rightarrow>
             if repo_url = [] then missing_url
             else
               (case extract_repo_name_from_url repo_url of
                  Inl (ValueError m) \<Rightarrow>
                    \<lparr>summary = ''invalid repository URL'', relatedFiles = [], codeSnippets = [],
                     solutionSuggestion = ''provide a valid repository URL'',
                     analysis_status_code = 400\<rparr>
                | Inl e \<Rightarrow> analysis_failure e
                | Inr repo \<Rightarrow>
                    (case initialize_services create_embeddings of
                       Inl e \<Rightarrow> analysis_failure e
                     | Inr emb \<Rightarrow>
                         (case load_vector_stores get_faiss_index_path fs repo of
                            None \<Rightarrow>
                              \<lparr>summary = ''no analysis data for repository '' @ repo,
                               relatedFiles = [], codeSnippets = [],
                               solutionSuggestion =
                                 ''the repository is not indexed yet; analyse the repository first'',
                               analysis_status_code = 404\<rparr>
                          | Some code_vector_store \<Rightarrow>
                              (case issue_analyzer code_vector_store request_data default_branch of
                                 Inl e \<Rightarrow> analysis_failure e
                               | Inr analysis_result \<Rightarrow>
                                   analysis_result\<lparr>analysis_status_code := 200\<rparr>)))))"

section \<open>Example inputs\<close>

definition doc_foo :: document where
  "doc_foo = \<lparr>page_content = ''def foo(): pass'', metadata = [(''source'', ''foo.py'')]\<rparr>"

definition doc_bar :: document where
  "doc_bar = \<lparr>page_content = ''def bar(): return 1'', metadata = [(''source'', ''bar.py'')]\<rparr>"

definition example_index :: faiss_index where
  "example_index = \<lparr>ntotal = 2, dimension = 2,
     reconstruct = (\<lambda>i. if i = 0 then Some [1, 0] else if i = 1 then Some [0, 1] else None)\<rparr>"

definition example_store :: vector_store where
  "example_store = \<lparr>index = Some example_index,
     index_to_docstore_id = [0 \<mapsto> ''id0'', 1 \<mapsto> ''id1''],
     docstore = [''id0'' \<mapsto> doc_foo, ''id1'' \<mapsto> doc_bar]\<rparr>"



definition empty_index :: faiss_index where
  "empty_index = \<lparr>ntotal = 0, dimension = 2, reconstruct = (\<lambda>i. None)\<rparr>"

definition empty_store :: vector_store where
  "empty_store = \<lparr>index = Some empty_index, index_to_docstore_id = Map.empty, docstore = Map.empty\<rparr>"

definition example_embeddings :: embeddings where
  "example_embeddings = \<lparr>embed_documents = (\<lambda>ts. Embedded (map (\<lambda>t. [1, 0]) ts) []),
     embed_query = Some (\<lambda>t. Inr [1, 0])\<rparr>"

definition failing_embeddings :: embeddings where
  "failing_embeddings = \<lparr>embed_documents = (\<lambda>ts. Raises (EmbeddingError ''quota exceeded'' None)),
     embed_query = Some (\<lambda>t. Inl (EmbeddingError ''quota exceeded'' None))\<rparr>"

definition short_embeddings :: embeddings where
  "short_embeddings = \<lparr>embed_documents = (\<lambda>ts. Embedded (map (\<lambda>t. [1]) ts) []),
     embed_query = Some (\<lambda>t. Inr [1])\<rparr>"


definition example_documents :: "document list" where
  "example_documents = [doc_foo, doc_bar]"

definition example_uuid4 :: "nat \<Rightarrow> string" where
  "example_uuid4 j = (if j = 0 then ''id0'' else if j = 1 then ''id1'' else ''id2'')"

definition example_fs :: filesystem where
  "example_fs = \<lparr>files = [''index/corrupt'' \<mapsto> Unreadable (OtherException ''unpickling failed'')],
     write_error = (\<lambda>p. None)\<rparr>"

definition partial_embeddings :: embeddings where
  "partial_embeddings = \<lparr>embed_documents = (\<lambda>ts. Embedded [[0, 1]] [0]),
     embed_query = Some (\<lambda>t. Inr [1, 0])\<rparr>"



definition example_repo_name_of :: "string \<Rightarrow> string" where
  "example_repo_name_of repo_url = drop (length ''https://github.com/'') repo_url"


definition example_url :: string where
  "example_url = ''https://github.com/pallets/flask''"

definition example_job :: indexing_job where
  "example_job = \<lparr>status = Pending, progress = 0, progress_message = [],
     start_time = Some 7, end_time = None, error = None, error_code = None,
     callback_url = Some ''http://localhost:3001/internal/analysis-complete'',
     requesting_user_id = Some 1\<rparr>"


definition example_indexing :: service_state where
  "example_indexing = \<lparr>jobs = [''pallets/flask'' \<mapsto> example_job\<lparr>status := Indexing\<rparr>],
     pipelines = [''pallets/flask''], clock = 7\<rparr>"

definition example_get_faiss_index_path :: "string \<Rightarrow> string \<Rightarrow> string" where
  "example_get_faiss_index_path repo index_type = ''index/'' @ repo @ ''_'' @ index_type"

definition example_validate_search_request ::
    "string \<times> string \<times> string \<Rightarrow> exn + string \<times> string \<times> string" where
  "example_validate_search_request request_data =
     (case request_data of
        (repo, query, search_type) \<Rightarrow>
          if repo = [] \<or> query = [] then Inl (ValidationError ''repo_name and query are required'')
          else Inr (repo, query, search_type))"

definition example_extract_repo_name_from_url :: "string \<Rightarrow> exn + string" where
  "example_extract_repo_name_from_url repo_url =
     (if take (length ''https://github.com/'') repo_url = ''https://github.com/''
      then Inr (example_repo_name_of repo_url)
      else Inl (ValueError ''not a GitHub URL''))"

definition example_issue_request :: issue_request where
  "example_issue_request = \<lparr>issueId = Some 42, repoUrl = Some example_url, defaultBranch = None\<rparr>"

definition example_issue_analyzer :: "vector_store \<Rightarrow> issue_request \<Rightarrow> string \<Rightarrow> exn + analysis" where
  "example_issue_analyzer vs request_data default_branch =
     Inr \<lparr>summary = ''summary'', relatedFiles = [], codeSnippets = [],
          solutionSuggestion = ''suggestion'', analysis_status_code = 0\<rparr>"

section \<open>The ranking and the threshold filter\<close>

lemma upt2: "[0..<2] = [0, 1]" by (simp add: upt_rec)






















section \<open>Empty indexes and failures of the search\<close>

text \<open>
  Claim C9, as amended. When the embeddings object supports query embedding and
  embedding the query does not raise an \<open>EmbeddingError\<close>, the search of a store whose
  index is not initialised or holds no vector returns the empty list; so does the
  search with no store at all.
\<close>

theorem search_empty_index:
  assumes "embed_query emb = Some embed_q"
    and "case embed_q q of Inl e \<Rightarrow> \<not> is_EmbeddingError e | Inr qe \<Rightarrow> True"
    and "case index vs of None \<Rightarrow> True | Some ix \<Rightarrow> ntotal ix = 0"
  shows "search_documents sim emb (Some vs) q top_k thr = Inr [] \<and>
         search_documents sim emb None q top_k thr = Inr []"
proof (cases "embed_q q")
  case (Inl e)
  with assms(2) have "\<not> is_EmbeddingError e" by simp
  with Inl assms(1) show ?thesis
    by (cases e) (simp_all add: search_documents_def search_try_def)
next
  case (Inr qe)
  with assms(1,3) show ?thesis
    by (simp add: search_documents_def search_try_def split: option.splits)
qed

theorem search_empty_index_witness:
  "embed_query example_embeddings = Some (\<lambda>t. Inr [1, 0]) \<and>
   index empty_store = Some empty_index \<and> ntotal empty_index = 0 \<and>
   search_documents cosine_similarity example_embeddings (Some empty_store) ''function foo'' 5 (1 / 2) = Inr []"
proof -
  have h1: "embed_query example_embeddings = Some (\<lambda>t. Inr [1, 0])"
    by (simp add: example_embeddings_def)
  have h2: "case (\<lambda>t::string. (Inr [1, 0] :: exn + vec)) ''function foo'' of
      Inl e \<Rightarrow> \<not> is_EmbeddingError e | Inr qe \<Rightarrow> True" by simp
  have h3: "case index empty_store of None \<Rightarrow> True | Some ix \<Rightarrow> ntotal ix = 0"
    by (simp add: empty_store_def empty_index_def)
  from search_empty_index [OF h1 h2 h3, where sim = cosine_similarity and top_k = 5 and thr = "1 / 2"] h1
  show ?thesis by (simp add: empty_store_def empty_index_def)
qed

text \<open>
  Claim C9 as stated fails: the query is embedded before the index is looked at, so an
  \<open>EmbeddingError\<close> of the provider is raised for an index without vectors too.
\<close>

theorem search_empty_index_counterexample:
  "index empty_store = Some empty_index \<and> ntotal empty_index = 0 \<and>
   search_documents cosine_similarity failing_embeddings (Some empty_store) ''function foo'' 5 (1 / 2) =
     Inl (EmbeddingError ''quota exceeded'' None) \<and>
   search_documents cosine_similarity failing_embeddings (Some empty_store) ''function foo'' 5 (1 / 2) \<noteq>
     Inr []"
  by (simp add: search_documents_def search_try_def failing_embeddings_def empty_store_def
      empty_index_def)

lemma scan_not_EmbeddingError:
  "scan sim vs ix q idxs acc = Inl e \<Longrightarrow> \<not> is_EmbeddingError e"
  by (induction idxs arbitrary: acc) (auto split: option.splits)

lemma search_try_EmbeddingError:
  assumes "search_try sim embed_q vs q top_k thr = Inl e" "is_EmbeddingError e"
  shows "embed_q q = Inl e"
  using assms scan_not_EmbeddingError [of sim vs _ _ _ "[]" e]
  by (auto simp: search_try_def doc_score_pairs_def split: sum.splits option.splits if_splits)

text \<open>
  Claim C10. Once the \<^verbatim>\<open>try\<close> block of \<^verbatim>\<open>search_documents\<close> is entered, an
  exception in it that is not an \<open>EmbeddingError\<close> is answered with the empty list, and
  the only exceptions that reach the caller are the \<open>EmbeddingError\<close>s raised by
  embedding the query.
\<close>

theorem search_swallows_unexpected:
  assumes "embed_query emb = Some embed_q"
  shows "(\<forall>e. search_try sim embed_q vs q top_k thr = Inl e \<and> \<not> is_EmbeddingError e \<longrightarrow>
            search_documents sim emb (Some vs) q top_k thr = Inr []) \<and>
         (\<forall>e. search_documents sim emb (Some vs) q top_k thr = Inl e \<longleftrightarrow>
            is_EmbeddingError e \<and> embed_q q = Inl e)"
proof (intro conjI allI impI)
  fix e
  assume "search_try sim embed_q vs q top_k thr = Inl e \<and> \<not> is_EmbeddingError e"
  with assms show "search_documents sim emb (Some vs) q top_k thr = Inr []"
    by (cases e) (simp_all add: search_documents_def)
next
  fix e
  show "search_documents sim emb (Some vs) q top_k thr = Inl e \<longleftrightarrow>
      is_EmbeddingError e \<and> embed_q q = Inl e"
  proof
    assume a: "search_documents sim emb (Some vs) q top_k thr = Inl e"
    with assms have "search_try sim embed_q vs q top_k thr = Inl e \<and> is_EmbeddingError e"
      by (auto simp: search_documents_def split: sum.splits exn.splits)
    then show "is_EmbeddingError e \<and> embed_q q = Inl e"
      using search_try_EmbeddingError by blast
  next
    assume "is_EmbeddingError e \<and> embed_q q = Inl e"
    with assms show "search_documents sim emb (Some vs) q top_k thr = Inl e"
      by (cases e) (simp_all add: search_documents_def search_try_def)
  qed
qed

lemma short_query_fails:
  "search_try cosine_similarity (\<lambda>t. Inr [1]) example_store ''function foo'' 5 (1 / 2) =
     Inl (ValueError ''shapes not aligned'')"
  by (simp add: search_try_def doc_score_pairs_def example_store_def example_index_def
      cosine_similarity_def normalize_vector_def upt2)

theorem search_swallows_unexpected_witness:
  "embed_query short_embeddings = Some (\<lambda>t. Inr [1]) \<and>
   search_try cosine_similarity (\<lambda>t. Inr [1]) example_store ''function foo'' 5 (1 / 2) =
     Inl (ValueError ''shapes not aligned'') \<and>
   \<not> is_EmbeddingError (ValueError ''shapes not aligned'') \<and>
   search_documents cosine_similarity short_embeddings (Some example_store) ''function foo'' 5 (1 / 2) =
     Inr [] \<and>
   search_documents cosine_similarity failing_embeddings (Some example_store) ''function foo'' 5 (1 / 2) =
     Inl (EmbeddingError ''quota exceeded'' None)"
proof -
  have h1: "embed_query short_embeddings = Some (\<lambda>t. Inr [1])"
    by (simp add: short_embeddings_def)
  have h2: "embed_query failing_embeddings = Some (\<lambda>t. Inl (EmbeddingError ''quota exceeded'' None))"
    by (simp add: failing_embeddings_def)
  have a: "search_documents cosine_similarity short_embeddings (Some example_store) ''function foo'' 5 (1 / 2) =
     Inr []"
    using search_swallows_unexpected [OF h1, where sim = cosine_similarity and vs = example_store
        and q = "''function foo''" and top_k = 5 and thr = "1 / 2"]
      short_query_fails by auto
  have b: "search_documents cosine_similarity failing_embeddings (Some example_store) ''function foo'' 5 (1 / 2) =
     Inl (EmbeddingError ''quota exceeded'' None)"
    using search_swallows_unexpected [OF h2, where sim = cosine_similarity and vs = example_store
        and q = "''function foo''" and top_k = 5 and thr = "1 / 2"]
    by simp
  from a b h1 short_query_fails show ?thesis by simp
qed

section \<open>The index builder\<close>

lemma filter_successful_documents_nths:
  "filter_successful_documents documents failed = nths documents (- set failed)"
proof -
  have "zip [0..<length documents] documents =
      map (\<lambda>(x, i). (i, x)) (zip documents [0..<length documents])"
    by (rule zip_commute)
  then show ?thesis
    by (simp add: filter_successful_documents_def nths_def enumerate_eq_zip filter_map comp_def
        case_prod_beta)
qed


lemma starts_with_append: "starts_with (needle @ rest) needle"
  by (induction needle) auto

lemma contains_append: "contains (before @ needle @ rest) needle"
proof (induction before)
  case Nil
  then show ?case by (cases "needle @ rest") (use starts_with_append [of needle rest] in auto)
next
  case (Cons c before)
  then show ?case by simp
qed

lemma contains_default_remedies: "contains (m @ default_remedies) remedy_marker"
proof -
  have "m @ default_remedies = (m @ ''  further '') @ remedy_marker @
     '' 1. restart the Flask server. 2. check the API key in the .env file. 3. check the network connection.''"
    by (simp add: default_remedies_def)
  then show ?thesis by (simp only: contains_append)
qed

lemma contains_unexpected_error_details: "contains (unexpected_error_details e) remedy_marker"
proof -
  have "unexpected_error_details e = (''unexpected error while generating embeddings: '' @ message e @
     '' possible causes: 1. network connection 2. Gemini API outage 3. API key permissions 4. request data format '') @
     remedy_marker @
     '' 1. check the network connection. 2. retry later. 3. check the API key. 4. check the logs.''"
    by (simp add: unexpected_error_details_def)
  then show ?thesis by (simp only: contains_append)
qed

lemma generate_embeddings_Inl:
  assumes "snd (generate_embeddings emb documents) = Inl c"
  shows "is_EmbeddingError c \<and> contains (message c) remedy_marker \<and>
         (\<forall>embs failed. embed_documents emb (map page_content documents) \<noteq> Embedded embs failed)"
  using assms contains_default_remedies contains_unexpected_error_details
  by (auto simp: generate_embeddings_def Let_def simp del: contains.simps append.simps
      split: embed_result.splits exn.splits if_splits)

lemma generate_embeddings_Inr:
  assumes "snd (generate_embeddings emb documents) = Inr r"
  shows "embed_documents emb (map page_content documents) = Embedded (fst r) (snd r)"
  using assms
  by (auto simp: generate_embeddings_def Let_def split: embed_result.splits exn.splits if_splits)

lemma generate_embeddings_Embedded:
  assumes "embed_documents emb (map page_content documents) = Embedded embs failed"
  shows "generate_embeddings emb documents =
     ([(Info, ''embedding generation started''), (Info, ''embedding generation finished'')],
      Inr (embs, failed))"
  using assms by (simp add: generate_embeddings_def)

lemma create_faiss_vector_store_Inl:
  "snd (create_faiss_vector_store uuid4 ds es) = Inl c \<Longrightarrow> is_IndexingError c"
  by (auto simp: create_faiss_vector_store_def Let_def split: sum.splits)

lemma save_index_Inl:
  "snd (snd (save_index fs vs p)) = Inl c \<Longrightarrow> is_IndexingError c"
  by (auto simp: save_index_def split: option.splits)


lemma rebuild_documents:
  "map (\<lambda>(t, m). \<lparr>page_content = t, metadata = m\<rparr>)
     (zip (map page_content ds) (map metadata ds)) = (ds :: document list)"
  by (induction ds) auto

lemma pairs_fst:
  "length es = length ds \<Longrightarrow>
   map fst (map (\<lambda>(doc, embedding). (page_content doc, embedding)) (zip ds es)) =
     map page_content (ds :: document list)"
  by (induction ds es rule: list_induct2') auto

lemma pairs_snd:
  "length es = length ds \<Longrightarrow>
   map snd (map (\<lambda>(doc, embedding). (page_content (doc :: document), embedding)) (zip ds es)) = es"
  by (induction ds es rule: list_induct2') auto

lemma from_embeddings_ok:
  assumes "ds \<noteq> []" "length es = length ds" "\<forall>v \<in> set es. length v = dm"
  shows "from_embeddings uuid4
           (map (\<lambda>(doc, embedding). (page_content doc, embedding)) (zip ds es))
           (map metadata ds) =
         Inr \<lparr>index = Some \<lparr>ntotal = length ds, dimension = dm,
                  reconstruct = (\<lambda>j. if j < length ds then Some (es ! j) else None)\<rparr>,
               index_to_docstore_id =
                 (\<lambda>j. if j < length ds then Some (map uuid4 [0 ..< length ds] ! j) else None),
               docstore = map_of (rev (zip (map uuid4 [0 ..< length ds]) ds))\<rparr>"
proof -
  from assms have es: "es \<noteq> []" by auto
  then have hd: "length (hd es) = dm" using assms(3) by simp
  have z: "zip ds es \<noteq> []" using assms(1) es by (cases ds; cases es) auto
  have len: "length (map (\<lambda>(doc, embedding). (page_content (doc :: document), embedding :: vec))
      (zip ds es)) = length ds"
    using assms(2) by simp
  show ?thesis
    unfolding from_embeddings_def Let_def pairs_fst [OF assms(2)] pairs_snd [OF assms(2)]
      rebuild_documents length_map
    using assms z hd by (simp del: upt.simps)
qed

lemma create_faiss_vector_store_ok:
  assumes "ds \<noteq> []" "length es = length ds" "\<forall>v \<in> set es. length v = dm"
  shows "create_faiss_vector_store uuid4 ds es =
         ([], Inr \<lparr>index = Some \<lparr>ntotal = length ds, dimension = dm,
                  reconstruct = (\<lambda>j. if j < length ds then Some (es ! j) else None)\<rparr>,
               index_to_docstore_id =
                 (\<lambda>j. if j < length ds then Some (map uuid4 [0 ..< length ds] ! j) else None),
               docstore = map_of (rev (zip (map uuid4 [0 ..< length ds]) ds))\<rparr>)"
  unfolding create_faiss_vector_store_def Let_def from_embeddings_ok [OF assms] by simp

lemma map_of_rev_distinct: "distinct (map fst xs) \<Longrightarrow> map_of (rev xs) = map_of xs"
  by (induct xs)
    (auto 4 3 simp add: map_add_def intro!: ext split: option.split intro: rev_image_eqI)

lemma docstore_lookup:
  assumes "distinct ids" "length ids = length ds" "j < length ds"
  shows "map_of (rev (zip ids ds)) (ids ! j) = Some (ds ! j)"
proof -
  have "distinct (map fst (zip ids ds))" using assms by (simp add: map_fst_zip)
  then have "map_of (rev (zip ids ds)) = map_of (zip ids ds)" by (rule map_of_rev_distinct)
  then show ?thesis using assms by (simp add: map_of_zip_nth)
qed

lemma docstore_card:
  assumes "distinct ids" "length ids = length ds"
  shows "card (dom (map_of (rev (zip ids ds)))) = length ds"
proof -
  have "dom (map_of (rev (zip ids ds))) = set ids"
    using assms by (simp add: dom_map_of_conv_image_fst map_fst_zip flip: set_map)
  then show ?thesis using assms by (simp add: distinct_card)
qed


lemma build_unfold:
  assumes "embed_documents emb (map page_content documents) = Embedded embs failed"
    and "embs \<noteq> []"
    and "length embs = length (filter_successful_documents documents failed)"
    and "\<forall>v \<in> set embs. length v = dm"
    and "write_error fs index_path = None"
  shows "snd (snd (create_index_from_documents emb uuid4 fs documents index_path index_type)) =
     Inr (Some \<lparr>index = Some \<lparr>ntotal = length embs, dimension = dm,
                  reconstruct = (\<lambda>j. if j < length embs then Some (embs ! j) else None)\<rparr>,
               index_to_docstore_id =
                 (\<lambda>j. if j < length embs then Some (map uuid4 [0 ..< length embs] ! j) else None),
               docstore = map_of (rev (zip (map uuid4 [0 ..< length embs])
                            (filter_successful_documents documents failed)))\<rparr>)"
proof -
  let ?ds = "filter_successful_documents documents failed"
  have ds: "?ds \<noteq> []" using assms(2,3) by auto
  then have docs: "documents \<noteq> []" by (auto simp: filter_successful_documents_def)
  have len: "length embs = length ?ds" by (rule assms(3))
  show ?thesis
    using docs assms(2,5)
    by (simp add: create_index_from_documents_def generate_embeddings_Embedded [OF assms(1)]
        create_faiss_vector_store_ok [OF ds len assms(4)] save_index_def len [symmetric]
        del: upt.simps cong: if_cong)
qed

text \<open>
  Claim C2. When the provider hands back at least one vector, exactly one vector per
  document whose index is not among the failed ones, all of the provider's dimension,
  the ids drawn are distinct and the index can be written, the builder returns a store
  whose docstore has as many entries as the index has vectors; the surviving documents
  are those at the indices not failed, in their order; and position \<open>j\<close> of the index
  holds the \<open>j\<close>-th vector, of the provider's dimension, under an id whose docstore
  entry is the \<open>j\<close>-th surviving document with its metadata.
\<close>

theorem build_consistent:
  assumes "embed_documents emb (map page_content documents) = Embedded embs failed"
    and "embs \<noteq> []"
    and "length embs = length (filter_successful_documents documents failed)"
    and "\<forall>v \<in> set embs. length v = dm"
    and "distinct (map uuid4 [0 ..< length embs])"
    and "write_error fs index_path = None"
  shows "\<exists>vs ix. snd (snd (create_index_from_documents emb uuid4 fs documents index_path index_type)) =
           Inr (Some vs) \<and>
         index vs = Some ix \<and> ntotal ix = length embs \<and> dimension ix = dm \<and>
         card (dom (docstore vs)) = ntotal ix \<and>
         filter_successful_documents documents failed = nths documents (- set failed) \<and>
         (\<forall>j < ntotal ix.
            reconstruct ix j = Some (embs ! j) \<and> length (embs ! j) = dm \<and>
            (\<exists>docstore_id. index_to_docstore_id vs j = Some docstore_id \<and>
               docstore vs docstore_id = Some (filter_successful_documents documents failed ! j)))"
proof -
  let ?ds = "filter_successful_documents documents failed"
  let ?ids = "map uuid4 [0 ..< length embs]"
  have len: "length ?ids = length ?ds" using assms(3) by simp
  have card: "card (dom (map_of (rev (zip ?ids ?ds)))) = length embs"
    using docstore_card [OF assms(5) len] assms(3) by simp
  have look: "map_of (rev (zip ?ids ?ds)) (?ids ! j) = Some (?ds ! j)" if "j < length embs" for j
    using docstore_lookup [OF assms(5) len] that assms(3) by simp
  have dims: "length (embs ! j) = dm" if "j < length embs" for j
    using assms(4) that by simp
  show ?thesis
    unfolding build_unfold [OF assms(1-4,6)]
    using card look dims by (simp add: filter_successful_documents_nths del: upt.simps)
qed


lemma upt1: "[0..<1] = [0]" by (simp add: upt_rec)

lemma example_survivors: "filter_successful_documents example_documents [0] = [doc_bar]"
  by (simp add: filter_successful_documents_def example_documents_def enumerate_eq_zip upt2)

theorem build_consistent_witness:
  "embed_documents partial_embeddings (map page_content example_documents) = Embedded [[0, 1]] [0] \<and>
   length [[0, 1 :: real]] = length (filter_successful_documents example_documents [0]) \<and>
   (\<exists>vs ix. snd (snd (create_index_from_documents partial_embeddings example_uuid4 example_fs
          example_documents ''index/repo'' ''code'')) = Inr (Some vs) \<and>
      index vs = Some ix \<and> ntotal ix = length [[0, 1 :: real]] \<and> dimension ix = 2 \<and>
      card (dom (docstore vs)) = ntotal ix \<and>
      filter_successful_documents example_documents [0] = nths example_documents (- set [0]) \<and>
      (\<forall>j < ntotal ix.
         reconstruct ix j = Some ([[0, 1]] ! j) \<and> length ([[0, 1 :: real]] ! j) = 2 \<and>
         (\<exists>docstore_id. index_to_docstore_id vs j = Some docstore_id \<and>
            docstore vs docstore_id = Some (filter_successful_documents example_documents [0] ! j))))"
proof -
  have h1: "embed_documents partial_embeddings (map page_content example_documents) =
      Embedded [[0, 1]] [0]"
    by (simp add: partial_embeddings_def)
  have h2: "[[0, 1 :: real]] \<noteq> []" by simp
  have h3: "length [[0, 1 :: real]] = length (filter_successful_documents example_documents [0])"
    by (simp add: example_survivors)
  have h4: "\<forall>v \<in> set [[0, 1 :: real]]. length v = 2" by simp
  have h5: "distinct (map example_uuid4 [0 ..< length [[0, 1 :: real]]])"
    by (simp add: upt1 example_uuid4_def)
  have h6: "write_error example_fs ''index/repo'' = None" by (simp add: example_fs_def)
  show ?thesis
    by (intro conjI h1 h3 build_consistent [OF h1 h2 h3 h4 h5 h6])
qed

text \<open>
  Claim C3, as amended. Every exception that leaves the builder is an
  \<open>IndexingError\<close> with the builder's message, never an \<open>EmbeddingError\<close>; what
  tells the two kinds of failure apart is its cause: an \<open>EmbeddingError\<close> whose text
  has the remedies when the provider did not hand back a pair, an \<open>IndexingError\<close>
  when assembling or saving the index failed.
\<close>

theorem build_failure_is_IndexingError:
  assumes "snd (snd (create_index_from_documents emb uuid4 fs documents index_path index_type)) =
      Inl e"
  shows "is_IndexingError e \<and> \<not> is_EmbeddingError e \<and>
         message e = index_type @ '' index creation failed'' \<and>
         (\<exists>c. cause e = Some c \<and>
            (case embed_documents emb (map page_content documents) of
               Embedded embs failed \<Rightarrow> is_IndexingError c
             | Unexpected_format \<Rightarrow> is_EmbeddingError c \<and> contains (message c) remedy_marker
             | Raises x \<Rightarrow> is_EmbeddingError c \<and> contains (message c) remedy_marker))"
proof -
  from assms have docs: "documents \<noteq> []"
    by (auto simp: create_index_from_documents_def)
  obtain l1 r1 where g: "generate_embeddings emb documents = (l1, r1)"
    by (cases "generate_embeddings emb documents") auto
  show ?thesis
  proof (cases r1)
    case (Inl c)
    with g have "snd (generate_embeddings emb documents) = Inl c" by simp
    from generate_embeddings_Inl [OF this]
    have c: "is_EmbeddingError c" "contains (message c) remedy_marker"
      and ne: "\<forall>embs failed. embed_documents emb (map page_content documents) \<noteq> Embedded embs failed"
      by blast+
    from assms docs g Inl
    have e: "e = IndexingError (index_type @ '' index creation failed'') (Some c)"
      by (simp add: create_index_from_documents_def Let_def)
    show ?thesis using e c ne
      by (cases "embed_documents emb (map page_content documents)") simp_all
  next
    case (Inr r)
    obtain embs failed where r: "r = (embs, failed)" by (cases r)
    with g Inr have "snd (generate_embeddings emb documents) = Inr (embs, failed)" by simp
    from generate_embeddings_Inr [OF this]
    have emb: "embed_documents emb (map page_content documents) = Embedded embs failed" by simp
    obtain l2 r2 where a: "create_faiss_vector_store uuid4
        (filter_successful_documents documents failed) embs = (l2, r2)"
      by (cases "create_faiss_vector_store uuid4
        (filter_successful_documents documents failed) embs") auto
    from assms docs g Inr r have ne: "embs \<noteq> []"
      by (auto simp: create_index_from_documents_def Let_def)
    show ?thesis
    proof (cases r2)
      case (Inl c)
      with a have "snd (create_faiss_vector_store uuid4
        (filter_successful_documents documents failed) embs) = Inl c" by simp
      then have c: "is_IndexingError c" by (rule create_faiss_vector_store_Inl)
      from assms docs g \<open>r1 = Inr r\<close> r ne a Inl
      have "e = IndexingError (index_type @ '' index creation failed'') (Some c)"
        by (simp add: create_index_from_documents_def Let_def)
      with c emb show ?thesis by simp
    next
      case (Inr vs)
      obtain l3 fs' r3 where sv: "save_index fs vs index_path = (l3, fs', r3)"
        by (cases "save_index fs vs index_path") auto
      from assms docs g \<open>r1 = Inr r\<close> r ne a Inr sv obtain c where r3: "r3 = Inl c"
        and e: "e = IndexingError (index_type @ '' index creation failed'') (Some c)"
        by (cases r3) (auto simp: create_index_from_documents_def Let_def)
      from sv r3 have "snd (snd (save_index fs vs index_path)) = Inl c" by simp
      then have "is_IndexingError c" by (rule save_index_Inl)
      with e emb show ?thesis by simp
    qed
  qed
qed

lemma quota_message: "\<not> contains ''quota exceeded'' remedy_marker"
  by (simp add: remedy_marker_def)

lemma failing_build:
  "snd (snd (create_index_from_documents failing_embeddings example_uuid4 example_fs
      example_documents ''index/repo'' ''code'')) =
   Inl (IndexingError ''code index creation failed''
     (Some (EmbeddingError (''quota exceeded'' @ default_remedies)
        (Some (EmbeddingError ''quota exceeded'' None)))))"
  using quota_message
  by (simp add: create_index_from_documents_def generate_embeddings_def failing_embeddings_def
      example_documents_def del: contains.simps append.simps)

theorem build_failure_is_IndexingError_witness:
  "snd (snd (create_index_from_documents failing_embeddings example_uuid4 example_fs
      example_documents ''index/repo'' ''code'')) =
   Inl (IndexingError ''code index creation failed''
     (Some (EmbeddingError (''quota exceeded'' @ default_remedies)
        (Some (EmbeddingError ''quota exceeded'' None))))) \<and>
   contains (''quota exceeded'' @ default_remedies) remedy_marker"
  using build_failure_is_IndexingError [OF failing_build] failing_build
  by (simp add: failing_embeddings_def del: contains.simps append.simps)

text \<open>
  Claim C3 as stated fails: a provider that raises an \<open>EmbeddingError\<close> makes the
  builder raise an \<open>IndexingError\<close>.
\<close>

theorem build_EmbeddingError_counterexample:
  "embed_documents failing_embeddings (map page_content example_documents) =
     Raises (EmbeddingError ''quota exceeded'' None) \<and>
   snd (snd (create_index_from_documents failing_embeddings example_uuid4 example_fs
      example_documents ''index/repo'' ''code'')) =
   Inl (IndexingError ''code index creation failed''
     (Some (EmbeddingError (''quota exceeded'' @ default_remedies)
        (Some (EmbeddingError ''quota exceeded'' None))))) \<and>
   \<not> is_EmbeddingError (IndexingError ''code index creation failed''
     (Some (EmbeddingError (''quota exceeded'' @ default_remedies)
        (Some (EmbeddingError ''quota exceeded'' None)))))"
  using failing_build by (simp add: failing_embeddings_def del: append.simps)






section \<open>Loading an index\<close>

text \<open>
  Claim C6. \<^verbatim>\<open>load_index\<close> never raises; where no index exists it returns \<open>None\<close>
  and logs that; where what is on disk makes \<^verbatim>\<open>load_local\<close> raise it returns
  \<open>None\<close> and logs the error.
\<close>

theorem load_index_never_raises:
  "(\<exists>r. snd (load_index fs index_path index_type) = Inr r) \<and>
   (files fs index_path = None \<longrightarrow>
      load_index fs index_path index_type =
        ([(Info, index_type @ '' index does not exist'')], Inr None)) \<and>
   (\<forall>e. files fs index_path = Some (Unreadable e) \<longrightarrow>
      snd (load_index fs index_path index_type) = Inr None \<and>
      (Error, index_type @ '' index load failed'') \<in> set (fst (load_index fs index_path index_type)))"
  by (auto simp: load_index_def load_local_def split: option.splits stored.splits sum.splits)

theorem load_index_never_raises_witness:
  "files example_fs ''index/missing'' = None \<and>
   load_index example_fs ''index/missing'' ''code'' =
     ([(Info, ''code'' @ '' index does not exist'')], Inr None) \<and>
   files example_fs ''index/corrupt'' = Some (Unreadable (OtherException ''unpickling failed'')) \<and>
   snd (load_index example_fs ''index/corrupt'' ''code'') = Inr None \<and>
   (Error, ''code'' @ '' index load failed'') \<in> set (fst (load_index example_fs ''index/corrupt'' ''code''))"
proof -
  have m: "files example_fs ''index/missing'' = None" by (simp add: example_fs_def)
  have c: "files example_fs ''index/corrupt'' = Some (Unreadable (OtherException ''unpickling failed''))"
    by (simp add: example_fs_def)
  from load_index_never_raises [of example_fs "''index/missing''" "''code''"] m
  have a: "load_index example_fs ''index/missing'' ''code'' =
     ([(Info, ''code'' @ '' index does not exist'')], Inr None)" by blast
  from load_index_never_raises [of example_fs "''index/corrupt''" "''code''"] c
  have b: "snd (load_index example_fs ''index/corrupt'' ''code'') = Inr None \<and>
   (Error, ''code'' @ '' index load failed'') \<in> set (fst (load_index example_fs ''index/corrupt'' ''code''))"
    by blast
  show ?thesis by (intro conjI m a c conjunct1 [OF b] conjunct2 [OF b])
qed

section \<open>Indexing requests\<close>








section \<open>Searching without an index\<close>

lemma search_service_not_found:
  assumes "snd (load_index fs (get_faiss_index_path (repo_name_of repo_url) search_type) search_type) =
      Inr None"
  shows "search_service_search_repository sim emb repo_name_of get_faiss_index_path top_k_default
       threshold_default fs s repo_url query search_type =
     (Inl (ServiceError (''no index for repository '' @ repo_name_of repo_url)
        (Some ''INDEX_NOT_FOUND'')), s)"
  using assms by (simp add: search_service_search_repository_def Let_def)

text \<open>
  Claim C8. For a repository whose index location holds nothing that can be loaded: a
  valid search request is answered with 404 and the error code \<^verbatim>\<open>INDEX_NOT_FOUND\<close>,
  and the state of the indexing service is left as it was; an issue analysis for the
  repository is answered with 404; and the status query for a repository whose job is
  indexing is answered with 202 and no error code, which is another outcome.
\<close>

theorem search_without_index_not_found:
  assumes "snd (load_index fs (get_faiss_index_path repo ''code'') ''code'') = Inr None"
    and "repo_name_of (''https://github.com/'' @ repo) = repo"
  shows "(\<forall>request_json query search_type.
            validate_search_request request_json = Inr (repo, query, search_type) \<longrightarrow>
            repository_search_post validate_search_request
              (search_service_search_repository sim emb repo_name_of get_faiss_index_path
                 top_k_default threshold_default fs) request_json s =
              (error_response (''no index for repository '' @ repo) (Some ''INDEX_NOT_FOUND'') 404,
               s)) \<and>
         (\<forall>request_data repo_url emb'.
            repoUrl request_data = Some repo_url \<and> repo_url \<noteq> [] \<and>
            extract_repo_name_from_url repo_url = Inr repo \<and> create_embeddings = Inr emb' \<longrightarrow>
            analysis_status_code
              (analyze_issue extract_repo_name_from_url create_embeddings get_faiss_index_path
                 issue_analyzer fs request_data) = 404) \<and>
         (\<forall>job. jobs s repo = Some job \<and> status job = Indexing \<longrightarrow>
            (\<exists>res. get_repository_status repo (Inr (get_repository_status_data s repo)) = Inr res \<and>
               status_code res = 202 \<and> result_status res = ''success'' \<and>
               result_error_code res = None))"
proof (intro conjI allI impI)
  fix request_json query search_type
  assume v: "validate_search_request request_json = Inr (repo, query, search_type)"
  have l: "snd (load_index fs (get_faiss_index_path (repo_name_of (''https://github.com/'' @ repo))
      ''code'') ''code'') = Inr None"
    unfolding assms(2) by (rule assms(1))
  have "search_repository validate_search_request
      (search_service_search_repository sim emb repo_name_of get_faiss_index_path
         top_k_default threshold_default fs) request_json s =
      (Inl (ServiceError (''no index for repository '' @ repo) (Some ''INDEX_NOT_FOUND'')), s)"
    using v search_service_not_found [where repo_name_of = repo_name_of
        and get_faiss_index_path = get_faiss_index_path and search_type = "''code''"
        and repo_url = "''https://github.com/'' @ repo", OF l] assms(2)
    by (cases "search_type = ''code''") (simp_all add: search_repository_def Let_def)
  then show "repository_search_post validate_search_request
      (search_service_search_repository sim emb repo_name_of get_faiss_index_path
         top_k_default threshold_default fs) request_json s =
      (error_response (''no index for repository '' @ repo) (Some ''INDEX_NOT_FOUND'') 404, s)"
    by (simp add: repository_search_post_def Let_def)
next
  fix request_data :: issue_request and repo_url emb'
  assume a: "repoUrl request_data = Some repo_url \<and> repo_url \<noteq> [] \<and>
      extract_repo_name_from_url repo_url = Inr repo \<and> create_embeddings = Inr emb'"
  have "load_vector_stores get_faiss_index_path fs repo = None"
    using assms(1) by (simp add: load_vector_stores_def Let_def)
  with a show "analysis_status_code
      (analyze_issue extract_repo_name_from_url create_embeddings get_faiss_index_path
         issue_analyzer fs request_data) = 404"
    by (simp add: analyze_issue_def Let_def initialize_services_def)
next
  fix job
  assume "jobs s repo = Some job \<and> status job = Indexing"
  then show "\<exists>res. get_repository_status repo (Inr (get_repository_status_data s repo)) = Inr res \<and>
      status_code res = 202 \<and> result_status res = ''success'' \<and> result_error_code res = None"
    by (simp add: get_repository_status_def get_repository_status_data_def Let_def)
qed


lemma example_no_index:
  "snd (load_index example_fs (example_get_faiss_index_path ''pallets/flask'' ''code'') ''code'') =
     Inr None"
  by (simp add: load_index_def example_fs_def example_get_faiss_index_path_def)

lemma example_key_of_url:
  "example_repo_name_of (''https://github.com/'' @ ''pallets/flask'') = ''pallets/flask''"
  by (simp add: example_repo_name_of_def)

theorem search_without_index_not_found_witness:
  "snd (load_index example_fs (example_get_faiss_index_path ''pallets/flask'' ''code'') ''code'') =
     Inr None \<and>
   repository_search_post example_validate_search_request
     (search_service_search_repository cosine_similarity example_embeddings example_repo_name_of
        example_get_faiss_index_path 5 (1 / 2) example_fs)
     (''pallets/flask'', ''how is the request object used'', ''code'') example_indexing =
     (error_response (''no index for repository '' @ ''pallets/flask'') (Some ''INDEX_NOT_FOUND'') 404,
      example_indexing) \<and>
   analysis_status_code
     (analyze_issue example_extract_repo_name_from_url (Inr example_embeddings)
        example_get_faiss_index_path example_issue_analyzer example_fs example_issue_request) = 404 \<and>
   (\<exists>res. get_repository_status ''pallets/flask''
        (Inr (get_repository_status_data example_indexing ''pallets/flask'')) = Inr res \<and>
      status_code res = 202 \<and> result_status res = ''success'' \<and> result_error_code res = None)"
proof -
  note t = search_without_index_not_found [where fs = example_fs
      and get_faiss_index_path = example_get_faiss_index_path and repo = "''pallets/flask''"
      and repo_name_of = example_repo_name_of
      and validate_search_request = example_validate_search_request
      and sim = cosine_similarity and emb = example_embeddings and top_k_default = 5
      and threshold_default = "1 / 2" and s = example_indexing
      and extract_repo_name_from_url = example_extract_repo_name_from_url
      and create_embeddings = "Inr example_embeddings"
      and issue_analyzer = example_issue_analyzer, OF example_no_index example_key_of_url]
  have v: "example_validate_search_request
      (''pallets/flask'', ''how is the request object used'', ''code'') =
      Inr (''pallets/flask'', ''how is the request object used'', ''code'')"
    by (simp add: example_validate_search_request_def)
  from t v have a: "repository_search_post example_validate_search_request
     (search_service_search_repository cosine_similarity example_embeddings example_repo_name_of
        example_get_faiss_index_path 5 (1 / 2) example_fs)
     (''pallets/flask'', ''how is the request object used'', ''code'') example_indexing =
     (error_response (''no index for repository '' @ ''pallets/flask'') (Some ''INDEX_NOT_FOUND'') 404,
      example_indexing)"
    by blast
  have r: "repoUrl example_issue_request = Some example_url \<and> example_url \<noteq> [] \<and>
      example_extract_repo_name_from_url example_url = Inr ''pallets/flask'' \<and>
      (Inr example_embeddings :: exn + embeddings) = Inr example_embeddings"
    by (simp add: example_issue_request_def example_url_def
        example_extract_repo_name_from_url_def example_repo_name_of_def)
  from t r have b: "analysis_status_code
     (analyze_issue example_extract_repo_name_from_url (Inr example_embeddings)
        example_get_faiss_index_path example_issue_analyzer example_fs example_issue_request) = 404"
    by blast
  have j: "jobs example_indexing ''pallets/flask'' = Some (example_job\<lparr>status := Indexing\<rparr>) \<and>
      status (example_job\<lparr>status := Indexing\<rparr>) = Indexing"
    by (simp add: example_indexing_def)
  from t j have c: "\<exists>res. get_repository_status ''pallets/flask''
        (Inr (get_repository_status_data example_indexing ''pallets/flask'')) = Inr res \<and>
      status_code res = 202 \<and> result_status res = ''success'' \<and> result_error_code res = None"
    by blast
  show ?thesis by (intro conjI example_no_index a b c)
qed

end
